theory Spec2Isabelle
  imports Complex_Main "HOL-Library.AList"
begin

section \<open>Values, errors and Python dictionaries\<close>

text \<open>
  Raw column values are Python objects used as dictionary keys. The registry uses integer
  codes and strings (string-encoded intervals), so a raw value is one of the two; an
  integer and a string are never equal as keys.
\<close>

datatype raw = IntV int | StrV string

text \<open>
  Every \<open>raise\<close> of the source is a value. A \<open>ValueError\<close> raised by the source carries
  its message; an error raised by a builtin carries the name of the operation that
  failed (the interpreter's wording depends on its version); \<open>OSError\<close> carries the path
  that could not be used; \<open>SystemExit\<close> is how \<open>argparse\<close> rejects a command line, with
  its exit status; \<open>AttributeError\<close> carries the name that a module does not bind.
\<close>

datatype error =
    ValueError string
  | TypeError string
  | OSError string
  | SystemExit int
  | AttributeError string

text \<open>
  A \<open>dict\<close> is an association list in insertion order whose keys are pairwise distinct:
  \<open>d[k] = v\<close> replaces the value of a key that is present, in place, and appends a new
  key at the end (\<open>AList.update\<close>); \<open>k in d\<close> and \<open>d.get(k, default)\<close> read it.
\<close>

type_synonym ('k, 'v) dict = "('k \<times> 'v) list"

definition dict_contains :: "('k, 'v) dict \<Rightarrow> 'k \<Rightarrow> bool" where
  "dict_contains d k = (k \<in> set (map fst d))"

definition dict_get :: "('k, 'v) dict \<Rightarrow> 'k \<Rightarrow> 'v \<Rightarrow> 'v" where
  "dict_get d k dflt = (case map_of d k of Some v \<Rightarrow> v | None \<Rightarrow> dflt)"

definition dict_items :: "('k, 'v) dict \<Rightarrow> ('k \<times> 'v) list" where
  "dict_items d = d"

section \<open>The code table loader\<close>

text \<open>
  The characters of a line are code points below 256. There, the class \<open>\d\<close> of a
  \<open>str\<close> pattern is the ten ASCII digits, and \<open>\s\<close> is what \<open>str.isspace\<close> accepts:
  tab to carriage return, the four separators 0x1C to 0x1F, the space, NEL and the
  no-break space.
\<close>

definition LF :: char where
  "LF = CHR 0x0A"

definition CR :: char where
  "CR = CHR 0x0D"

definition is_digit :: "char \<Rightarrow> bool" where
  "is_digit c = (c \<in> set ''0123456789'')"

definition is_space :: "char \<Rightarrow> bool" where
  "is_space c = (c \<in> set [CHR 0x09, CHR 0x0A, CHR 0x0B, CHR 0x0C, CHR 0x0D,
     CHR 0x1C, CHR 0x1D, CHR 0x1E, CHR 0x1F, CHR 0x20, CHR 0x85, CHR 0xA0])"

text \<open>
  \<open>line_re.match(line)\<close> for \<open>(?P<code>\d+)\s+[.](?P<description>.+)$\<close>, anchored at
  the start of the line. The three greedy repetitions never need to give a character
  back: a digit is no space, a space is no dot, and \<open>$\<close> holds only at the end of the
  line or before a line feed that ends it. The result is the pair of the two groups.
\<close>

definition line_re_match :: "string \<Rightarrow> (string \<times> string) option" where
  "line_re_match line =
     (let code = takeWhile is_digit line;
          r1 = dropWhile is_digit line;
          spaces = takeWhile is_space r1;
          r2 = dropWhile is_space r1
      in if code = [] then None
         else if spaces = [] then None
         else (case r2 of
                 [] \<Rightarrow> None
               | c # r3 \<Rightarrow>
                   if c = CHR ''.'' then
                     (let description = takeWhile (\<lambda>x. x \<noteq> LF) r3;
                          r4 = dropWhile (\<lambda>x. x \<noteq> LF) r3
                      in if description = [] then None
                         else if r4 = [] then Some (code, description)
                         else if r4 = [LF] then Some (code, description)
                         else None)
                   else None))"

text \<open>
  \<open>int(code)\<close> on a string of decimal digits; Python's integers are unbounded. The
  interpreter's limit on the number of digits that \<open>int\<close> reads (4300 by default, from
  version 3.11 on) is left out, here and in the registry's callables.
\<close>

definition digit_value :: "char \<Rightarrow> int" where
  "digit_value c = int (of_char c) - 48"

definition int_of_digits :: "string \<Rightarrow> int" where
  "int_of_digits ds = foldl (\<lambda>n c. 10 * n + digit_value c) 0 ds"

text \<open>
  A text file is opened with universal newlines: \<open>\r\n\<close> and a lone \<open>\r\<close> are read as
  \<open>\n\<close>, and iterating over the file gives its lines, each with the line feed that ends
  it (the last line has none when the file does not end in one).
\<close>

fun universal_newlines :: "string \<Rightarrow> string" where
  "universal_newlines (c # d # cs) =
     (if c = CR then
        (if d = LF then LF # universal_newlines cs else LF # universal_newlines (d # cs))
      else c # universal_newlines (d # cs))"
| "universal_newlines [c] = (if c = CR then [LF] else [c])"
| "universal_newlines [] = []"

fun split_lines :: "string \<Rightarrow> string \<Rightarrow> string list" where
  "split_lines cur [] = (if cur = [] then [] else [cur])"
| "split_lines cur (c # cs) =
     (if c = LF then (cur @ [LF]) # split_lines [] cs else split_lines (cur @ [c]) cs)"

definition file_lines :: "string \<Rightarrow> string list" where
  "file_lines txt = split_lines [] (universal_newlines txt)"

text \<open>
  The loop over the lines of the file: a line that does not match is skipped (and
  logged), a line that matches stores its description, post-processed when a transform
  is given, under its code; a later line with the same code replaces an earlier one.
\<close>

type_synonym file_cache = "int \<rightharpoonup> string"

fun load_lines :: "(string \<Rightarrow> string) option \<Rightarrow> string list \<Rightarrow> file_cache \<Rightarrow> file_cache" where
  "load_lines postprocess [] fc = fc"
| "load_lines postprocess (line # ls) fc =
     (case line_re_match line of
        None \<Rightarrow> load_lines postprocess ls fc
      | Some (code, description) \<Rightarrow>
          load_lines postprocess ls
            (fc(int_of_digits code \<mapsto>
               (case postprocess of Some f \<Rightarrow> f description | None \<Rightarrow> description))))"

text \<open>
  The process: \<open>cache\<close> is the dictionary that is the default value of the parameter
  \<open>cache\<close> (one object for the whole process, keyed by file path), \<open>fs\<close> gives the text
  of each file that can be opened, and \<open>reads\<close> records every file that was opened and
  read, in order. Logging changes nothing that is returned and is left out.
\<close>

record world =
  cache :: "string \<rightharpoonup> file_cache"
  fs :: "string \<rightharpoonup> string"
  reads :: "string list"

definition process_start :: "(string \<rightharpoonup> string) \<Rightarrow> world" where
  "process_start files = \<lparr>cache = Map.empty, fs = files, reads = []\<rparr>"

text \<open>Lines 94 to 111: the table of the file, from the cache or read and cached.\<close>

definition get_file_cache ::
  "string \<Rightarrow> (string \<Rightarrow> string) option \<Rightarrow> world \<Rightarrow> error + (file_cache \<times> world)" where
  "get_file_cache file postprocess w =
     (case cache w file of
        Some fc \<Rightarrow> Inr (fc, w)
      | None \<Rightarrow>
          (case fs w file of
             None \<Rightarrow> Inl (OSError file)
           | Some txt \<Rightarrow>
               (let fc = load_lines postprocess (file_lines txt) Map.empty
                in Inr (fc, w\<lparr>cache := (cache w)(file \<mapsto> fc), reads := reads w @ [file]\<rparr>))))"

text \<open>\<open>value in file_cache\<close> and \<open>file_cache[value]\<close>: the keys of the table are integers.\<close>

definition file_cache_lookup :: "file_cache \<Rightarrow> raw \<Rightarrow> string option" where
  "file_cache_lookup fc v = (case v of IntV n \<Rightarrow> fc n | StrV s \<Rightarrow> None)"

text \<open>Lines 113 to 118: the description of the code, or \<open>"N/A"\<close> when the table has none.\<close>

definition code_or_na :: "file_cache \<Rightarrow> raw \<Rightarrow> string" where
  "code_or_na fc v =
     (case file_cache_lookup fc v of None \<Rightarrow> ''N/A'' | Some description \<Rightarrow> description)"

definition parse_pums_code ::
  "raw \<Rightarrow> string \<Rightarrow> (string \<Rightarrow> string) option \<Rightarrow> world \<Rightarrow> (error + string) \<times> world" where
  "parse_pums_code v file postprocess w =
     (case get_file_cache file postprocess w of
        Inl e \<Rightarrow> (Inl e, w)
      | Inr (fc, w') \<Rightarrow> (Inr (code_or_na fc v), w'))"

text \<open>The code that a line stores, when the line matches.\<close>

definition line_code :: "string \<Rightarrow> int option" where
  "line_code line =
     map_option (\<lambda>(code, description). int_of_digits code) (line_re_match line)"

text \<open>
  What happens to the cache in a process: calls of \<open>parse_pums_code\<close> with any value,
  file and transform, and, outside the program, files that change, appear or go away.
\<close>

datatype event =
    Call raw string "(string \<Rightarrow> string) option"
  | FileChange string "string option"

fun step :: "world \<Rightarrow> event \<Rightarrow> world" where
  "step w (Call v file postprocess) = snd (parse_pums_code v file postprocess w)"
| "step w (FileChange file content) = w\<lparr>fs := (fs w)(file := content)\<rparr>"

definition run :: "event list \<Rightarrow> world \<Rightarrow> world" where
  "run evs w = foldl step w evs"

definition read_once :: "world \<Rightarrow> bool" where
  "read_once w = (distinct (reads w) \<and> set (reads w) \<subseteq> dom (cache w))"

section \<open>Questions and choices\<close>

text \<open>
  Modelled from the spec: the classes \<open>QAInterface\<close>, \<open>MultipleChoiceQA\<close>, \<open>Question\<close>
  and \<open>Choice\<close> are imported by the source from modules that are not part of it. A
  choice has a display text, a raw value and an optional numeric value; a question has a
  prompt and, when it is a multiple-choice question, an ordered sequence of choices. The
  prompt is a string, the one-element tuple that the registry passes for the column COW,
  or the prompt that \<open>create_question_from_value_map\<close> builds from a column name and an
  attribute description (the spec leaves its wording open, so the two are kept).
\<close>

record choice =
  display_text :: string
  raw_value :: raw
  numeric_value :: "int option"

datatype prompt = Prompt string | PromptTuple "string list" | PromptFor string string

datatype question = MultipleChoiceQA prompt "choice list" | OtherQA prompt

definition Choice :: "string \<Rightarrow> raw \<Rightarrow> choice" where
  "Choice t v = \<lparr>display_text = t, raw_value = v, numeric_value = None\<rparr>"

definition Choice_numeric :: "string \<Rightarrow> raw \<Rightarrow> int \<Rightarrow> choice" where
  "Choice_numeric t v n = \<lparr>display_text = t, raw_value = v, numeric_value = Some n\<rparr>"

fun choices :: "question \<Rightarrow> choice list" where
  "choices (MultipleChoiceQA p cs) = cs"
| "choices (OtherQA p) = []"

text \<open>
  Modelled from the spec: \<open>MultipleChoiceQA.get_value_to_text_map\<close>, the mapping derived
  from a question's choices, each choice's raw value to its display text. The mapping is a
  dictionary filled in the order of the choices, so of two choices with one raw value the
  later one's text stays.
\<close>

definition get_value_to_text_map :: "question \<Rightarrow> (raw, string) dict" where
  "get_value_to_text_map q =
     foldl (\<lambda>d c. AList.update (raw_value c) (display_text c) d) [] (choices q)"

text \<open>
  Modelled from the spec: \<open>MultipleChoiceQA.create_question_from_value_map\<close>, the
  question whose choices are the dictionary's (value, text) pairs, in the dictionary's
  order, with a prompt built from the column name and the attribute description.
\<close>

definition create_question_from_value_map ::
  "string \<Rightarrow> (raw, string) dict \<Rightarrow> string \<Rightarrow> question" where
  "create_question_from_value_map column value_map attribute =
     MultipleChoiceQA (PromptFor column attribute)
       (map (\<lambda>(v, t). Choice t v) (dict_items value_map))"

section \<open>The column-to-text mapper\<close>

text \<open>
  A value map is a dictionary, a callable, or an object of another type (the lookup
  raises on it). A callable may read and change the process (the code table loader does)
  and may raise.
\<close>

datatype value_map_t =
    DictMap "(raw, string) dict"
  | CallableMap "raw \<Rightarrow> world \<Rightarrow> (error + string) \<times> world"
  | OtherMap string

record ColumnToText =
  name :: string
  short_description :: string
  value_map :: value_map_t
  question :: "question option"
  connector_verb :: string
  missing_value_fill :: string

definition default_connector_verb :: string where
  "default_connector_verb = ''is''"

definition default_missing_value_fill :: string where
  "default_missing_value_fill = ''N/A''"

definition cannot_infer_message :: "string \<Rightarrow> string" where
  "cannot_infer_message nm =
     ''Cannot infer `ColumnToText` value map from the provided question; '' @
     ''Must explicitly provide a `value_map` for column '' @ nm @ ''.''"

definition neither_provided_message :: "string \<Rightarrow> string" where
  "neither_provided_message nm =
     ''Must provide either a `value_map` or a `question` for column '' @
     [CHR 0x27] @ nm @ [CHR 0x27] @ '' but neither was provided.''"

text \<open>
  \<open>ColumnToText.__init__\<close>, with the branches in the order of the source: a question and
  no value map; a value map and no question; both; neither.
\<close>

fun ColumnToText_init ::
  "string \<Rightarrow> string \<Rightarrow> value_map_t option \<Rightarrow> question option \<Rightarrow> string \<Rightarrow> string
     \<Rightarrow> error + ColumnToText" where
  "ColumnToText_init nm sd None (Some q) cv mvf =
     (case q of
        MultipleChoiceQA p cs \<Rightarrow>
          Inr \<lparr>name = nm, short_description = sd,
               value_map = DictMap (get_value_to_text_map q), question = Some q,
               connector_verb = cv, missing_value_fill = mvf\<rparr>
      | OtherQA p \<Rightarrow> Inl (ValueError (cannot_infer_message nm)))"
| "ColumnToText_init nm sd (Some vm) None cv mvf =
     Inr \<lparr>name = nm, short_description = sd, value_map = vm,
          question =
            (case vm of
               DictMap d \<Rightarrow> Some (create_question_from_value_map nm d sd)
             | CallableMap f \<Rightarrow> None
             | OtherMap ty \<Rightarrow> None),
          connector_verb = cv, missing_value_fill = mvf\<rparr>"
| "ColumnToText_init nm sd (Some vm) (Some q) cv mvf =
     Inr \<lparr>name = nm, short_description = sd, value_map = vm, question = Some q,
          connector_verb = cv, missing_value_fill = mvf\<rparr>"
| "ColumnToText_init nm sd None None cv mvf = Inl (ValueError (neither_provided_message nm))"

definition invalid_value_map_message :: "string \<Rightarrow> string \<Rightarrow> string" where
  "invalid_value_map_message ty nm =
     ''Invalid value map type '' @ [CHR 0x27] @ ty @ [CHR 0x27] @
     '' for column '' @ [CHR 0x27] @ nm @ [CHR 0x27] @ ''.''"

text \<open>
  \<open>__getitem__\<close>: the property \<open>value_map\<close> gives the callable itself, the helper that
  reads the dictionary with the fill for a missing value, or raises; the result is
  applied to the value.
\<close>

definition getitem :: "ColumnToText \<Rightarrow> raw \<Rightarrow> world \<Rightarrow> (error + string) \<times> world" where
  "getitem m v w =
     (case value_map m of
        CallableMap f \<Rightarrow> f v w
      | DictMap d \<Rightarrow> (Inr (dict_get d v (missing_value_fill m)), w)
      | OtherMap ty \<Rightarrow> (Inl (ValueError (invalid_value_map_message ty (name m))), w))"

text \<open>\<open>get_text\<close>: the formatted string around the text of the value.\<close>

definition get_text :: "ColumnToText \<Rightarrow> raw \<Rightarrow> world \<Rightarrow> (error + string) \<times> world" where
  "get_text m v w =
     (case getitem m v w of
        (Inl e, w') \<Rightarrow> (Inl e, w')
      | (Inr value_text, w') \<Rightarrow>
          (Inr (''The '' @ short_description m @ '' '' @ connector_verb m @ '' '' @
                value_text @ ''.''), w'))"


section \<open>The registry of ACS columns\<close>

text \<open>
  What the callables of the registry use: \<open>int(x)\<close> (an integer is itself; a string is
  stripped of white space and read as an optional sign and decimal digits, single
  underscores allowed between digits), the decimal text of an integer in an f-string,
  \<open>x[4:]\<close>, \<open>str.lower\<close> and \<open>str.strip\<close> on code points below 256. The white space
  that \<open>int\<close> strips is narrower than that of \<open>str.strip\<close>: tab to carriage return, the
  space, NEL and the no-break space, but not the separators 0x1C to 0x1F, on which
  \<open>int\<close> raises.
\<close>

definition py_strip :: "string \<Rightarrow> string" where
  "py_strip s = rev (dropWhile is_space (rev (dropWhile is_space s)))"

definition py_lower_char :: "char \<Rightarrow> char" where
  "py_lower_char c =
     (let n = (of_char c :: nat)
      in if 65 \<le> n \<and> n \<le> 90 then char_of (n + 32)
         else if 192 \<le> n \<and> n \<le> 222 \<and> n \<noteq> 215 then char_of (n + 32)
         else c)"

definition py_lower :: "string \<Rightarrow> string" where
  "py_lower s = map py_lower_char s"

fun valid_int_body :: "string \<Rightarrow> bool" where
  "valid_int_body [] = False"
| "valid_int_body [c] = is_digit c"
| "valid_int_body (c # d # cs) =
     (is_digit c \<and> (if d = CHR ''_'' then valid_int_body cs else valid_int_body (d # cs)))"

definition int_of_body :: "string \<Rightarrow> int option" where
  "int_of_body b =
     (if valid_int_body b then Some (int_of_digits (filter (\<lambda>c. c \<noteq> CHR ''_'') b)) else None)"

definition is_int_space :: "char \<Rightarrow> bool" where
  "is_int_space c = (c \<in> set [CHR 0x09, CHR 0x0A, CHR 0x0B, CHR 0x0C, CHR 0x0D,
     CHR 0x20, CHR 0x85, CHR 0xA0])"

definition int_strip :: "string \<Rightarrow> string" where
  "int_strip s = rev (dropWhile is_int_space (rev (dropWhile is_int_space s)))"

definition int_of_str :: "string \<Rightarrow> int option" where
  "int_of_str s =
     (case int_strip s of
        [] \<Rightarrow> None
      | c # r \<Rightarrow>
          if c = CHR ''-'' then map_option uminus (int_of_body r)
          else if c = CHR ''+'' then int_of_body r
          else int_of_body (c # r))"

definition py_int :: "raw \<Rightarrow> error + int" where
  "py_int x =
     (case x of
        IntV n \<Rightarrow> Inr n
      | StrV s \<Rightarrow> (case int_of_str s of None \<Rightarrow> Inl (ValueError ''int()'') | Some n \<Rightarrow> Inr n))"

fun digits_of_nat :: "nat \<Rightarrow> string" where
  "digits_of_nat n =
     (if n < 10 then [char_of (48 + n)]
      else digits_of_nat (n div 10) @ [char_of (48 + n mod 10)])"

definition str_of_int :: "int \<Rightarrow> string" where
  "str_of_int i = (if i < 0 then CHR ''-'' # digits_of_nat (nat (- i)) else digits_of_nat (nat i))"

text \<open>A callable that does not touch the process: it returns its result and the process as it was.\<close>

definition pure_callable :: "(raw \<Rightarrow> error + string) \<Rightarrow> raw \<Rightarrow> world \<Rightarrow> (error + string) \<times> world" where
  "pure_callable f v w = (f v, w)"

definition age_text :: "raw \<Rightarrow> error + string" where
  "age_text x = (case py_int x of Inl e \<Rightarrow> Inl e | Inr n \<Rightarrow> Inr (str_of_int n @ '' years old''))"

definition hours_text :: "raw \<Rightarrow> error + string" where
  "hours_text x = (case py_int x of Inl e \<Rightarrow> Inl e | Inr n \<Rightarrow> Inr (str_of_int n @ '' hours''))"

definition occp_postprocess :: "string \<Rightarrow> string" where
  "occp_postprocess x = py_strip (py_lower (drop 4 x))"

text \<open>
  The two reference files lie beside the module: \<open>dir\<close> is \<open>Path(__file__).parent\<close>,
  the directory the package is installed in.
\<close>

definition ACS_OCCP_FILE :: "string \<Rightarrow> string" where
  "ACS_OCCP_FILE dir = dir @ ''/data/OCCP-codes-acs.txt''"

definition ACS_POBP_FILE :: "string \<Rightarrow> string" where
  "ACS_POBP_FILE dir = dir @ ''/data/POBP-codes-acs.txt''"

text \<open>
  Modelled from the spec: \<open>Question(text, choices)\<close>, the class the registry builds its
  questions with, is a multiple-choice question with an ordered sequence of choices.
\<close>

definition Question :: "prompt \<Rightarrow> choice list \<Rightarrow> question" where
  "Question p cs = MultipleChoiceQA p cs"

text \<open>
  The definitions of the module, in its order. Each is the value of the right-hand side
  of one assignment: a mapper, or the error that its construction raises.
\<close>

definition acs_age :: "error + ColumnToText" where
  "acs_age =
     ColumnToText_init ''AGEP'' ''age'' (Some (CallableMap (pure_callable age_text))) None
       default_connector_verb default_missing_value_fill"

definition acs_class_of_worker :: "error + ColumnToText" where
  "acs_class_of_worker =
     ColumnToText_init ''COW'' ''current employment status'' None
       (Some (Question
          (PromptTuple
             [''Which one of the following best describes this person's employment '' @
              ''last week or the most recent employment in the past 5 years?''])
          [Choice ''working for a for-profit private company or organization'' (IntV 1),
           Choice ''working for a non-profit organization'' (IntV 2),
           Choice ''working for the local government'' (IntV 3),
           Choice ''working for the state government'' (IntV 4),
           Choice ''working for the federal government'' (IntV 5),
           Choice ''owner of non-incorporated business, professional practice, or farm'' (IntV 6),
           Choice ''owner of incorporated business, professional practice, or farm'' (IntV 7),
           Choice ''working without pay in a for-profit family business or farm'' (IntV 8),
           Choice ''unemployed and last worked 5 years ago or earlier or never worked'' (IntV 9)]))
       default_connector_verb default_missing_value_fill"

definition acs_schooling :: "error + ColumnToText" where
  "acs_schooling =
     ColumnToText_init ''SCHL'' ''highest grade completed'' None
       (Some (Question
          (Prompt ''What is this person's highest grade or level of school completed?'')
          [Choice ''kindergarten'' (IntV 3),
           Choice ''1st grade only'' (IntV 4),
           Choice ''2nd grade'' (IntV 5),
           Choice ''3rd grade'' (IntV 6),
           Choice ''4th grade'' (IntV 7),
           Choice ''5th grade'' (IntV 8),
           Choice ''6th grade'' (IntV 9),
           Choice ''7th grade'' (IntV 10),
           Choice ''8th grade'' (IntV 11),
           Choice ''9th grade'' (IntV 12),
           Choice ''10th grade'' (IntV 13),
           Choice ''11th grade'' (IntV 14),
           Choice ''12th grade, no diploma'' (IntV 15),
           Choice ''regular high school diploma'' (IntV 16),
           Choice ''GED or alternative credential'' (IntV 17),
           Choice ''some college, less than 1 year'' (IntV 18),
           Choice ''some college, 1 or more years, no degree'' (IntV 19),
           Choice ''Associate's degree'' (IntV 20),
           Choice ''Bachelor's degree'' (IntV 21),
           Choice ''Master's degree'' (IntV 22),
           Choice ''Professional degree beyond a bachelor's degree'' (IntV 23),
           Choice ''Doctorate degree'' (IntV 24)]))
       default_connector_verb default_missing_value_fill"

definition acs_marital_status :: "error + ColumnToText" where
  "acs_marital_status =
     ColumnToText_init ''MAR'' ''marital status''
       (Some (DictMap
          [(IntV 1, ''married''),
           (IntV 2, ''widowed''),
           (IntV 3, ''divorced''),
           (IntV 4, ''separated''),
           (IntV 5, ''never married'')]))
       None default_connector_verb default_missing_value_fill"

definition acs_occupation :: "string \<Rightarrow> error + ColumnToText" where
  "acs_occupation dir =
     ColumnToText_init ''OCCP'' ''occupation''
       (Some (CallableMap (\<lambda>v. parse_pums_code v (ACS_OCCP_FILE dir) (Some occp_postprocess))))
       None default_connector_verb default_missing_value_fill"

definition acs_place_of_birth :: "string \<Rightarrow> error + ColumnToText" where
  "acs_place_of_birth dir =
     ColumnToText_init ''POBP'' ''place of birth''
       (Some (CallableMap (\<lambda>v. parse_pums_code v (ACS_POBP_FILE dir) None)))
       None default_connector_verb default_missing_value_fill"

definition acs_relationship :: "error + ColumnToText" where
  "acs_relationship =
     ColumnToText_init ''RELP'' ''relationship to the reference person in the household'' None
       (Some (Question
          (Prompt ''What is this person's relationship to the reference person in the household?'')
          [Choice ''the 'reference person' itself'' (IntV 0),
           Choice ''husband/wife'' (IntV 1),
           Choice ''biological son or daughter'' (IntV 2),
           Choice ''adopted son or daughter'' (IntV 3),
           Choice ''stepson or stepdaughter'' (IntV 4),
           Choice ''brother or sister'' (IntV 5),
           Choice ''father or mother'' (IntV 6),
           Choice ''grandchild'' (IntV 7),
           Choice ''parent-in-law'' (IntV 8),
           Choice ''son-in-law or daughter-in-law'' (IntV 9),
           Choice ''other relative'' (IntV 10),
           Choice ''roomer or boarder'' (IntV 11),
           Choice ''housemate or roommate'' (IntV 12),
           Choice ''unmarried partner'' (IntV 13),
           Choice ''foster child'' (IntV 14),
           Choice ''other non-relative'' (IntV 15),
           Choice ''institutionalized group quarters population'' (IntV 16),
           Choice ''non-institutionalized group quarters population'' (IntV 17)]))
       default_connector_verb default_missing_value_fill"

definition acs_work_hours :: "error + ColumnToText" where
  "acs_work_hours =
     ColumnToText_init ''WKHP'' ''usual number of hours worked per week''
       (Some (CallableMap (pure_callable hours_text))) None default_connector_verb
       ''N/A (less than 16 years old, or did not work during the past 12 months)''"

definition acs_sex :: "error + ColumnToText" where
  "acs_sex =
     ColumnToText_init ''SEX'' ''sex'' None
       (Some (Question (Prompt ''What is this person's sex?'')
          [Choice ''Male'' (IntV 1),
           Choice ''Female'' (IntV 2)]))
       default_connector_verb default_missing_value_fill"

definition acs_race :: "error + ColumnToText" where
  "acs_race =
     ColumnToText_init ''RAC1P'' ''race''
       (Some (DictMap
          [(IntV 1, ''White''),
           (IntV 2, ''Black or African American''),
           (IntV 3, ''American Indian''),
           (IntV 4, ''Alaska Native''),
           (IntV 5, ''American Indian and Alaska Native tribes specified, or American Indian or Alaska Native, not specified and no other races''),
           (IntV 6, ''Asian''),
           (IntV 7, ''Native Hawaiian and Other Pacific Islander''),
           (IntV 8, ''Some other race alone (non-White)''),
           (IntV 9, ''Two or more races'')]))
       None default_connector_verb default_missing_value_fill"

text \<open>
  The source assigns \<open>acs_income\<close> twice, first for the column PINCP and then for the
  column \<open>PINCP_binary\<close>; the two right-hand sides are told apart by the column here.
\<close>

definition acs_income_PINCP :: "error + ColumnToText" where
  "acs_income_PINCP =
     ColumnToText_init ''PINCP'' ''yearly income'' None None default_connector_verb
       ''N/A (less than 15 years old)''"

definition acs_income_PINCP_binary :: "error + ColumnToText" where
  "acs_income_PINCP_binary =
     ColumnToText_init ''PINCP_binary'' ''yearly income'' None
       (Some (Question (Prompt ''What is this person's estimated yearly income?'')
          [Choice ''Below $50,000'' (IntV 0),
           Choice ''Above $50,000'' (IntV 1)]))
       default_connector_verb ''N/A (less than 15 years old)''"

definition acs_income_brackets :: "error + ColumnToText" where
  "acs_income_brackets =
     ColumnToText_init ''PINCP_brackets'' ''yearly income'' None
       (Some (Question (Prompt ''What is this person's estimated yearly income?'')
          [Choice_numeric ''Less than $25,000'' (StrV ''(0.0, 25000.0]'') 12500,
           Choice_numeric ''Between $25,000 and $50,000'' (StrV ''(25000.0, 50000.0]'') 37500,
           Choice_numeric ''Between $50,000 and $100,000'' (StrV ''(50000.0, 100000.0]'') 75000,
           Choice_numeric ''Above $100,000'' (StrV ''(100000.0, inf]'') 150000]))
       default_connector_verb ''N/A (less than 15 years old)''"

definition acs_pubcov :: "error + ColumnToText" where
  "acs_pubcov =
     ColumnToText_init ''PUBCOV'' ''public health insurance coverage'' None
       (Some (Question (Prompt ''Does this person have public health insurance coverage?'')
          [Choice ''No, individual is not covered by public health insurance'' (IntV 0),
           Choice ''Yes, individual is covered by public health insurance'' (IntV 1)]))
       default_connector_verb default_missing_value_fill"

text \<open>
  Loading the module runs its assignments in order: each binds its variable in the
  module's namespace to the mapper it built, and the first construction that raises ends
  the load with that error.
\<close>

definition acs_columns_statements :: "string \<Rightarrow> (string \<times> (error + ColumnToText)) list" where
  "acs_columns_statements dir =
     [(''acs_age'', acs_age),
      (''acs_class_of_worker'', acs_class_of_worker),
      (''acs_schooling'', acs_schooling),
      (''acs_marital_status'', acs_marital_status),
      (''acs_occupation'', acs_occupation dir),
      (''acs_place_of_birth'', acs_place_of_birth dir),
      (''acs_relationship'', acs_relationship),
      (''acs_work_hours'', acs_work_hours),
      (''acs_sex'', acs_sex),
      (''acs_race'', acs_race),
      (''acs_income'', acs_income_PINCP),
      (''acs_income'', acs_income_PINCP_binary),
      (''acs_income_brackets'', acs_income_brackets),
      (''acs_pubcov'', acs_pubcov)]"

fun exec_module ::
  "(string \<times> (error + ColumnToText)) list \<Rightarrow> (string, ColumnToText) dict
     \<Rightarrow> error + (string, ColumnToText) dict" where
  "exec_module [] ns = Inr ns"
| "exec_module ((var, rhs) # rest) ns =
     (case rhs of
        Inl e \<Rightarrow> Inl e
      | Inr m \<Rightarrow> exec_module rest (AList.update var m ns))"

definition acs_columns_module :: "string \<Rightarrow> error + (string, ColumnToText) dict" where
  "acs_columns_module dir = exec_module (acs_columns_statements dir) []"

text \<open>
  Rendering with a mapper of the registry, as a program does it: the module is loaded,
  the mapper is read from the module under its variable, and \<open>get_text\<close> is called on
  it. An error of the load is the error of the whole.
\<close>

definition registry_get_text ::
  "string \<Rightarrow> string \<Rightarrow> raw \<Rightarrow> world \<Rightarrow> (error + string) \<times> world" where
  "registry_get_text dir var v w =
     (case acs_columns_module dir of
        Inl e \<Rightarrow> (Inl e, w)
      | Inr ns \<Rightarrow>
          (case map_of ns var of
             None \<Rightarrow> (Inl (AttributeError var), w)
           | Some m \<Rightarrow> get_text m v w))"


section \<open>The command line of the benchmark\<close>

definition DEFAULT_BATCH_SIZE :: int where
  "DEFAULT_BATCH_SIZE = 30"

definition DEFAULT_CONTEXT_SIZE :: int where
  "DEFAULT_CONTEXT_SIZE = 500"

definition DEFAULT_SEED :: int where
  "DEFAULT_SEED = 42"

text \<open>
  A command line, as the options it gives: a valued option is absent or has its value
  (already converted by the option's \<open>type\<close>), a flag is present or not, and an option
  with \<open>nargs="*"\<close> is absent or has the list of the values that follow it, which may be
  empty. How \<open>argparse\<close> splits and converts the words of the command line is the
  library's and is not modelled.
\<close>

record cmdline =
  opt_model :: "string option"
  opt_task_name :: "string option"
  opt_results_dir :: "string option"
  opt_data_dir :: "string option"
  opt_few_shot :: "int option"
  opt_batch_size :: "int option"
  opt_context_size :: "int option"
  opt_fit_threshold :: "int option"
  opt_subsampling :: "real option"
  opt_seed :: "int option"
  flag_dont_correct_order_bias :: bool
  flag_chat_prompt :: bool
  flag_direct_risk_prompting :: bool
  flag_reuse_few_shot_examples :: bool
  opt_logger_level :: "string option"
  opt_use_feature_subset :: "string list option"
  opt_use_population_filter :: "string list option"

text \<open>The namespace that \<open>parse_args\<close> returns, one attribute for each option.\<close>

record namespace =
  model :: string
  task_name :: string
  results_dir :: string
  data_dir :: string
  args_few_shot :: "int option"
  args_batch_size :: "int option"
  args_context_size :: "int option"
  fit_threshold :: "int option"
  subsampling :: "real option"
  args_seed :: "int option"
  dont_correct_order_bias :: bool
  args_chat_prompt :: bool
  args_direct_risk_prompting :: bool
  args_reuse_few_shot_examples :: bool
  logger_level :: "string option"
  use_feature_subset :: "string list option"
  use_population_filter :: "string list option"

text \<open>
  What \<open>setup_arg_parser\<close> declares. The first four options are required; an option
  that is absent takes its default, \<open>None\<close> when none is declared. A \<open>store_true\<close> flag
  is \<open>False\<close> by default and \<open>True\<close> when present; the \<open>store_false\<close> flag
  \<open>--dont-correct-order-bias\<close> is \<open>True\<close> by default and \<open>False\<close> when present. The
  logger level must be one of the declared choices. A command line that breaks a
  declaration ends the program with status 2.
\<close>

definition logger_level_choices :: "string list" where
  "logger_level_choices = [''DEBUG'', ''INFO'', ''WARNING'', ''ERROR'', ''CRITICAL'']"

definition with_default :: "'a option \<Rightarrow> 'a option \<Rightarrow> 'a option" where
  "with_default given dflt = (case given of Some v \<Rightarrow> Some v | None \<Rightarrow> dflt)"

definition store_true :: "bool \<Rightarrow> bool" where
  "store_true present = (if present then True else False)"

definition store_false :: "bool \<Rightarrow> bool" where
  "store_false present = (if present then False else True)"

definition parse_args :: "cmdline \<Rightarrow> error + namespace" where
  "parse_args cl =
     (case (opt_model cl, opt_task_name cl, opt_results_dir cl, opt_data_dir cl) of
        (Some m, Some t, Some r, Some d) \<Rightarrow>
          (if (case opt_logger_level cl of
                 None \<Rightarrow> True
               | Some l \<Rightarrow> l \<in> set logger_level_choices)
           then Inr \<lparr>model = m, task_name = t, results_dir = r, data_dir = d,
                     args_few_shot = with_default (opt_few_shot cl) None,
                     args_batch_size = with_default (opt_batch_size cl) (Some DEFAULT_BATCH_SIZE),
                     args_context_size =
                       with_default (opt_context_size cl) (Some DEFAULT_CONTEXT_SIZE),
                     fit_threshold = with_default (opt_fit_threshold cl) None,
                     subsampling = with_default (opt_subsampling cl) None,
                     args_seed = with_default (opt_seed cl) (Some DEFAULT_SEED),
                     dont_correct_order_bias = store_false (flag_dont_correct_order_bias cl),
                     args_chat_prompt = store_true (flag_chat_prompt cl),
                     args_direct_risk_prompting = store_true (flag_direct_risk_prompting cl),
                     args_reuse_few_shot_examples =
                       store_true (flag_reuse_few_shot_examples cl),
                     logger_level = opt_logger_level cl,
                     use_feature_subset = opt_use_feature_subset cl,
                     use_population_filter = opt_use_population_filter cl\<rparr>
           else Inl (SystemExit 2))
      | _ \<Rightarrow> Inl (SystemExit 2))"

text \<open>
  \<open>filter_str.split("=")\<close>, and the loop of lines 124 to 126 that unpacks each filter
  into a column name and a value: a filter with no or with more than one \<open>=\<close> raises.
\<close>

fun split_on :: "char \<Rightarrow> string \<Rightarrow> string \<Rightarrow> string list" where
  "split_on sep cur [] = [cur]"
| "split_on sep cur (c # cs) =
     (if c = sep then cur # split_on sep [] cs else split_on sep (cur @ [c]) cs)"

fun population_filter_loop ::
  "string list \<Rightarrow> (string, string) dict \<Rightarrow> error + (string, string) dict" where
  "population_filter_loop [] d = Inr d"
| "population_filter_loop (filter_str # rest) d =
     (case split_on (CHR ''='') [] filter_str of
        [col_name, col_value] \<Rightarrow> population_filter_loop rest (AList.update col_name col_value d)
      | _ \<Rightarrow> Inl (ValueError ''unpack''))"

text \<open>
  What the program does outside itself before it builds the configuration, each step
  with the error it ends in, if any: creating the results directory, the debugger
  breakpoint that the source sets when a population filter is given, and loading the
  model and its tokenizer.
\<close>

record env =
  mkdir_error :: "error option"
  set_trace_error :: "error option"
  load_model_tokenizer_error :: "error option"

definition all_ok :: env where
  "all_ok = \<lparr>mkdir_error = None, set_trace_error = None, load_model_tokenizer_error = None\<rparr>"

definition parse_population_filter ::
  "env \<Rightarrow> string list option \<Rightarrow> error + (string, string) dict option" where
  "parse_population_filter e given =
     (case given of
        None \<Rightarrow> Inr None
      | Some [] \<Rightarrow> Inr None
      | Some (filter_str # rest) \<Rightarrow>
          (case set_trace_error e of
             Some err \<Rightarrow> Inl err
           | None \<Rightarrow>
               (case population_filter_loop (filter_str # rest) [] of
                  Inl err \<Rightarrow> Inl err
                | Inr d \<Rightarrow> Inr (Some d))))"

text \<open>
  The configuration is the record of the keyword arguments that \<open>BenchmarkConfig\<close> is
  called with (the class is outside the source). \<open>tuple(x)\<close> raises on \<open>None\<close>, and
  \<open>t or None\<close> is \<open>None\<close> for the empty tuple.
\<close>

record BenchmarkConfig =
  few_shot :: "int option"
  chat_prompt :: bool
  direct_risk_prompting :: bool
  reuse_few_shot_examples :: bool
  batch_size :: "int option"
  context_size :: "int option"
  correct_order_bias :: bool
  feature_subset :: "string list option"
  population_filter :: "(string, string) dict option"
  seed :: "int option"

definition py_tuple :: "'a list option \<Rightarrow> error + 'a list" where
  "py_tuple x = (case x of None \<Rightarrow> Inl (TypeError ''tuple()'') | Some xs \<Rightarrow> Inr xs)"

definition or_None :: "'a list \<Rightarrow> 'a list option" where
  "or_None t = (if t = [] then None else Some t)"

definition make_config ::
  "namespace \<Rightarrow> (string, string) dict option \<Rightarrow> error + BenchmarkConfig" where
  "make_config args population_filter_dict =
     (case py_tuple (use_feature_subset args) of
        Inl e \<Rightarrow> Inl e
      | Inr t \<Rightarrow>
          Inr \<lparr>few_shot = args_few_shot args,
               chat_prompt = args_chat_prompt args,
               direct_risk_prompting = args_direct_risk_prompting args,
               reuse_few_shot_examples = args_reuse_few_shot_examples args,
               batch_size = args_batch_size args,
               context_size = args_context_size args,
               correct_order_bias = (\<not> dont_correct_order_bias args),
               feature_subset = or_None t,
               population_filter = population_filter_dict,
               seed = args_seed args\<rparr>)"

text \<open>The main program, from the command line to the configuration (lines 107 to 145).\<close>

definition main_config :: "env \<Rightarrow> cmdline \<Rightarrow> error + BenchmarkConfig" where
  "main_config e cl =
     (case parse_args cl of
        Inl err \<Rightarrow> Inl err
      | Inr args \<Rightarrow>
          (case mkdir_error e of
             Some err \<Rightarrow> Inl err
           | None \<Rightarrow>
               (case parse_population_filter e (use_population_filter args) of
                  Inl err \<Rightarrow> Inl err
                | Inr population_filter_dict \<Rightarrow>
                    (case load_model_tokenizer_error e of
                       Some err \<Rightarrow> Inl err
                     | None \<Rightarrow> make_config args population_filter_dict))))"

text \<open>
  The command line that gives the four required options and nothing else, here with the
  values of a usual run.
\<close>

definition required_only :: cmdline where
  "required_only =
     \<lparr>opt_model = Some ''meta-llama/Meta-Llama-3-8B'', opt_task_name = Some ''ACSIncome'',
      opt_results_dir = Some ''results'', opt_data_dir = Some ''data'',
      opt_few_shot = None, opt_batch_size = None, opt_context_size = None,
      opt_fit_threshold = None, opt_subsampling = None, opt_seed = None,
      flag_dont_correct_order_bias = False, flag_chat_prompt = False,
      flag_direct_risk_prompting = False, flag_reuse_few_shot_examples = False,
      opt_logger_level = None, opt_use_feature_subset = None,
      opt_use_population_filter = None\<rparr>"

section \<open>The round trip between a question and a mapping\<close>





section \<open>Facts about dictionaries and the loader\<close>

lemma load_lines_append:
  "load_lines pp (xs @ ys) fc = load_lines pp ys (load_lines pp xs fc)"
  by (induction xs arbitrary: fc) (auto split: option.splits)

lemma load_lines_other:
  "n \<notin> set (List.map_filter line_code ls) \<Longrightarrow> load_lines pp ls fc n = fc n"
  by (induction ls arbitrary: fc)
    (auto simp: line_code_def List.map_filter_simps split: option.splits)

lemma load_lines_last:
  assumes "line_re_match line = Some (code, description)"
    and "n \<notin> set (List.map_filter line_code rest)"
    and "int_of_digits code = n"
  shows "load_lines pp (before @ line # rest) fc n =
     Some (case pp of Some f \<Rightarrow> f description | None \<Rightarrow> description)"
  using assms by (simp add: load_lines_append load_lines_other)

lemma get_file_cache_cached:
  "cache w file = Some fc \<Longrightarrow> get_file_cache file pp w = Inr (fc, w)"
  by (simp add: get_file_cache_def)

lemma get_file_cache_result:
  "get_file_cache file pp w = Inr (fc, w') \<Longrightarrow> cache w' file = Some fc"
  by (auto simp: get_file_cache_def Let_def split: option.splits)

lemma get_file_cache_frame:
  "get_file_cache file pp w = Inr (fc, w') \<Longrightarrow> cache w p = Some t \<Longrightarrow> cache w' p = Some t"
  by (auto simp: get_file_cache_def Let_def split: option.splits)

lemma get_file_cache_read_once:
  "get_file_cache file pp w = Inr (fc, w') \<Longrightarrow> read_once w \<Longrightarrow> read_once w'"
  by (auto simp: get_file_cache_def Let_def read_once_def split: option.splits)

lemma step_read_once: "read_once w \<Longrightarrow> read_once (step w ev)"
proof (cases ev)
  case (Call v path pp)
  assume "read_once w"
  then show ?thesis using Call
    by (auto simp: parse_pums_code_def split: sum.splits dest: get_file_cache_read_once)
next
  case (FileChange path content)
  assume "read_once w"
  then show ?thesis using FileChange by (simp add: read_once_def)
qed

lemma step_cache: "cache w p = Some t \<Longrightarrow> cache (step w ev) p = Some t"
  by (cases ev) (auto simp: parse_pums_code_def split: sum.splits dest: get_file_cache_frame)

lemma run_read_once: "read_once w \<Longrightarrow> read_once (run evs w)"
  unfolding run_def by (induction evs arbitrary: w) (auto simp: step_read_once)

lemma run_cache: "cache w p = Some t \<Longrightarrow> cache (run evs w) p = Some t"
  unfolding run_def by (induction evs arbitrary: w) (auto simp: step_cache)

lemma read_once_start: "read_once (process_start files)"
  by (simp add: read_once_def process_start_def)

lemma distinct_count_le: "distinct xs \<Longrightarrow> count_list xs x \<le> 1"
  by (induction xs) auto

lemma parse_cached:
  "cache w file = Some fc \<Longrightarrow> parse_pums_code v file pp w = (Inr (code_or_na fc v), w)"
  by (simp add: parse_pums_code_def get_file_cache_cached)

lemma parse_result:
  "parse_pums_code v file pp w = (Inr r, w') \<Longrightarrow>
     \<exists>fc. cache w' file = Some fc \<and> r = code_or_na fc v"
  by (auto simp: parse_pums_code_def split: sum.splits dest: get_file_cache_result)








lemma acs_columns_module_stops:
  "acs_columns_module dir = Inl (ValueError (neither_provided_message ''PINCP''))"
  by (simp add: acs_columns_module_def acs_columns_statements_def acs_age_def
      acs_class_of_worker_def acs_schooling_def acs_marital_status_def acs_occupation_def
      acs_place_of_birth_def acs_relationship_def acs_work_hours_def acs_sex_def acs_race_def
      acs_income_PINCP_def Question_def)

text \<open>
  Taken on their own, outside the load of the module, the constructor calls for RAC1P
  and \<open>PINCP_binary\<close> build mappers that render their values as the registry's texts
  say.
\<close>

lemma race_and_income_constructor_calls:
  "(\<exists>m. acs_race = Inr m \<and>
        get_text m (IntV 6) w = (Inr ''The race is Asian.'', w) \<and>
        get_text m (IntV 1) w = (Inr ''The race is White.'', w)) \<and>
   (\<exists>m. acs_income_PINCP_binary = Inr m \<and>
        get_text m (IntV 0) w = (Inr ''The yearly income is Below $50,000.'', w) \<and>
        get_text m (IntV 1) w = (Inr ''The yearly income is Above $50,000.'', w))"
  by (simp add: acs_race_def acs_income_PINCP_binary_def Question_def get_text_def getitem_def
      dict_get_def get_value_to_text_map_def Choice_def default_connector_verb_def)

section \<open>The mapper: lookup, construction and rendering\<close>

text \<open>
  C1. For a mapper whose value map is a dictionary \<open>d\<close> (its keys distinct, as in every
  Python dictionary), the lookup returns the entry \<open>t\<close> of every key \<open>k\<close> of \<open>d\<close>, and
  returns the mapper's fill for a missing value on every value that is not a key of \<open>d\<close>;
  the process is left as it was.
\<close>

theorem getitem_dict_lookup:
  assumes "value_map m = DictMap d" and "distinct (map fst d)"
  shows "(\<forall>k t. (k, t) \<in> set d \<longrightarrow> getitem m k w = (Inr t, w)) \<and>
         (\<forall>v. \<not> dict_contains d v \<longrightarrow> getitem m v w = (Inr (missing_value_fill m), w))"
proof (intro conjI allI impI)
  fix k t assume "(k, t) \<in> set d"
  with assms(2) have "map_of d k = Some t" by simp
  with assms(1) show "getitem m k w = (Inr t, w)"
    by (simp add: getitem_def dict_get_def)
next
  fix v assume "\<not> dict_contains d v"
  then have "map_of d v = None"
    by (simp add: dict_contains_def map_of_eq_None_iff)
  with assms(1) show "getitem m v w = (Inr (missing_value_fill m), w)"
    by (simp add: getitem_def dict_get_def)
qed

theorem getitem_dict_lookup_witness:
  "getitem \<lparr>name = ''MAR'', short_description = ''marital status'',
     value_map = DictMap [(IntV 1, ''married''), (IntV 2, ''widowed'')],
     question = None, connector_verb = ''is'', missing_value_fill = ''N/A''\<rparr>
     (IntV 2) (process_start Map.empty) = (Inr ''widowed'', process_start Map.empty) \<and>
   getitem \<lparr>name = ''MAR'', short_description = ''marital status'',
     value_map = DictMap [(IntV 1, ''married''), (IntV 2, ''widowed'')],
     question = None, connector_verb = ''is'', missing_value_fill = ''N/A''\<rparr>
     (StrV ''2'') (process_start Map.empty) = (Inr ''N/A'', process_start Map.empty)"
  using getitem_dict_lookup [of "\<lparr>name = ''MAR'', short_description = ''marital status'',
     value_map = DictMap [(IntV 1, ''married''), (IntV 2, ''widowed'')],
     question = None, connector_verb = ''is'', missing_value_fill = ''N/A''\<rparr>"
     "[(IntV 1, ''married''), (IntV 2, ''widowed'')]" "process_start Map.empty"]
  by (simp add: dict_contains_def)

text \<open>
  C2. Construction raises, and then a \<open>ValueError\<close>, exactly when no value map is given
  and either no question is given or the question given is not a multiple-choice
  question; for every other combination of arguments it returns a mapper.
\<close>

theorem init_raises_exactly:
  "(if vm = None \<and> (q = None \<or> (\<exists>p. q = Some (OtherQA p)))
    then \<exists>msg. ColumnToText_init nm sd vm q cv mvf = Inl (ValueError msg)
    else \<exists>m. ColumnToText_init nm sd vm q cv mvf = Inr m)"
  by (cases vm; cases q) (auto split: question.splits)

text \<open>
  C8. Whatever the lookup of a value returns, \<open>get_text\<close> returns around it: when the
  lookup gives the text \<open>value_text\<close>, the sentence is exactly "The ", the short
  description, a space, the connector verb, a space, \<open>value_text\<close> and a full stop, with
  nothing else changed; when the lookup raises, \<open>get_text\<close> raises the same error.
\<close>

theorem get_text_sentence:
  "getitem m v w = (r, w') \<Longrightarrow>
   get_text m v w =
     (case r of
        Inl e \<Rightarrow> (Inl e, w')
      | Inr value_text \<Rightarrow>
          (Inr (''The '' @ short_description m @ '' '' @ connector_verb m @ '' '' @
                value_text @ ''.''), w'))"
  by (simp add: get_text_def split: sum.splits)

theorem get_text_sentence_witness:
  "get_text \<lparr>name = ''SEX'', short_description = ''sex'',
     value_map = DictMap [(IntV 1, ''Male''), (IntV 2, ''Female'')],
     question = None, connector_verb = ''is'', missing_value_fill = ''N/A''\<rparr>
     (IntV 2) (process_start Map.empty) = (Inr ''The sex is Female.'', process_start Map.empty)"
proof -
  have h: "getitem \<lparr>name = ''SEX'', short_description = ''sex'',
     value_map = DictMap [(IntV 1, ''Male''), (IntV 2, ''Female'')],
     question = None, connector_verb = ''is'', missing_value_fill = ''N/A''\<rparr>
     (IntV 2) (process_start Map.empty) = (Inr ''Female'', process_start Map.empty)"
    by (simp add: getitem_def dict_get_def)
  show ?thesis using get_text_sentence [OF h] by simp
qed


section \<open>The code table loader: lookups and the cache\<close>

text \<open>
  C3, as amended. With no transform: when the file is read and the last of its lines
  that carries the code 6 is \<open>6 . Teacher\<close>, a query for 6 returns the text after the
  dot as it stands, \<open>" Teacher"\<close> with its leading space; and whenever the table of the
  file is at hand (cached, or the file can be opened), a query for a code that the table
  does not hold returns exactly \<open>"N/A"\<close> and no error.
\<close>

theorem parse_pums_code_no_transform:
  assumes "get_file_cache file None w = Inr (fc, w')"
  shows "(cache w file = None \<and> fs w file = Some txt \<and>
          file_lines txt = before @ line # rest \<and>
          (line = ''6 . Teacher'' \<or> line = ''6 . Teacher'' @ [LF]) \<and>
          6 \<notin> set (List.map_filter line_code rest)
            \<longrightarrow> parse_pums_code (IntV 6) file None w = (Inr '' Teacher'', w')) \<and>
         (file_cache_lookup fc v = None \<longrightarrow> parse_pums_code v file None w = (Inr ''N/A'', w'))"
proof (intro conjI impI)
  assume h: "cache w file = None \<and> fs w file = Some txt \<and>
          file_lines txt = before @ line # rest \<and>
          (line = ''6 . Teacher'' \<or> line = ''6 . Teacher'' @ [LF]) \<and>
          6 \<notin> set (List.map_filter line_code rest)"
  have m: "line_re_match line = Some (''6'', '' Teacher'')"
    using h by (auto simp: line_re_match_def is_digit_def is_space_def LF_def Let_def)
  have d: "int_of_digits ''6'' = 6"
    by (simp add: int_of_digits_def digit_value_def)
  have "fc = load_lines None (file_lines txt) Map.empty"
    using assms h by (auto simp: get_file_cache_def Let_def)
  then have "fc 6 = Some '' Teacher''"
    using h load_lines_last [OF m _ d, of rest None before Map.empty] by simp
  then show "parse_pums_code (IntV 6) file None w = (Inr '' Teacher'', w')"
    using assms by (simp add: parse_pums_code_def file_cache_lookup_def code_or_na_def)
next
  assume "file_cache_lookup fc v = None"
  then show "parse_pums_code v file None w = (Inr ''N/A'', w')"
    using assms by (simp add: parse_pums_code_def code_or_na_def)
qed

theorem parse_pums_code_no_transform_witness:
  "fst (parse_pums_code (IntV 6) ''codes.txt'' None
     (process_start
        [''codes.txt'' \<mapsto> ''5 .Cook'' @ [LF] @ ''6 . Teacher'' @ [LF] @ ''7 .Pilot'']))
     = Inr '' Teacher'' \<and>
   fst (parse_pums_code (IntV 9999) ''codes.txt'' None
     (process_start
        [''codes.txt'' \<mapsto> ''5 .Cook'' @ [LF] @ ''6 . Teacher'' @ [LF] @ ''7 .Pilot'']))
     = Inr ''N/A''"
proof -
  let ?txt = "''5 .Cook'' @ [LF] @ ''6 . Teacher'' @ [LF] @ ''7 .Pilot''"
  let ?w = "process_start [''codes.txt'' \<mapsto> ?txt]"
  let ?fc = "load_lines None (file_lines ?txt) Map.empty"
  let ?w' = "?w\<lparr>cache := (cache ?w)(''codes.txt'' \<mapsto> ?fc),
                reads := reads ?w @ [''codes.txt'']\<rparr>"
  have g: "get_file_cache ''codes.txt'' None ?w = Inr (?fc, ?w')"
    by (simp add: get_file_cache_def process_start_def Let_def)
  have ls: "file_lines ?txt = [''5 .Cook'' @ [LF]] @ (''6 . Teacher'' @ [LF]) # [''7 .Pilot'']"
    by (simp add: file_lines_def LF_def CR_def)
  have later: "6 \<notin> set (List.map_filter line_code [''7 .Pilot''])"
    by (simp add: List.map_filter_simps line_code_def line_re_match_def is_digit_def is_space_def
        LF_def int_of_digits_def digit_value_def Let_def)
  have absent: "file_cache_lookup ?fc (IntV 9999) = None"
    by (simp add: file_lines_def CR_def file_cache_lookup_def line_re_match_def is_digit_def
        is_space_def LF_def int_of_digits_def digit_value_def Let_def)
  have pre: "cache ?w ''codes.txt'' = None \<and> fs ?w ''codes.txt'' = Some ?txt"
    by (simp add: process_start_def)
  from parse_pums_code_no_transform [OF g, of ?txt "[''5 .Cook'' @ [LF]]"
      "''6 . Teacher'' @ [LF]" "[''7 .Pilot'']" "IntV 9999"]
    pre ls later absent
  show ?thesis by simp
qed

text \<open>
  The claim C3 as the spec words it fails: for the file whose one line is \<open>6 . Teacher\<close>,
  the query for 6 returns \<open>" Teacher"\<close>, which is not \<open>"Teacher"\<close>.
\<close>

theorem parse_pums_code_teacher_counterexample:
  "fst (parse_pums_code (IntV 6) ''codes.txt'' None
     (process_start [''codes.txt'' \<mapsto> ''6 . Teacher''])) = Inr '' Teacher'' \<and>
   fst (parse_pums_code (IntV 6) ''codes.txt'' None
     (process_start [''codes.txt'' \<mapsto> ''6 . Teacher''])) \<noteq> Inr ''Teacher''"
  by (simp add: parse_pums_code_def get_file_cache_def process_start_def file_lines_def
      line_re_match_def is_digit_def is_space_def LF_def CR_def int_of_digits_def digit_value_def
      file_cache_lookup_def code_or_na_def Let_def)

text \<open>
  C4. In a process that started with an empty cache and has, so far, made any calls of the
  loader while files changed in any way: no file has been read more than once; an entry
  of the cache, once there, stays as it is whatever happens next; and when a call for a
  file returns, its result is the lookup in the table that the cache now holds for the
  file, and every later call for the same file, with any value and any transform, returns
  the lookup in that same table and leaves the process as it found it (nothing is read,
  the cache is not touched).
\<close>

theorem parse_pums_code_cached:
  assumes "w = run evs (process_start files)"
  shows "count_list (reads w) file \<le> 1 \<and>
     (\<forall>fc. cache w file = Some fc \<longrightarrow> cache (run evs' w) file = Some fc) \<and>
     (\<forall>r1 w1. parse_pums_code v1 file pp1 w = (Inr r1, w1) \<longrightarrow>
        (\<exists>fc. cache w1 file = Some fc \<and> r1 = code_or_na fc v1 \<and>
           parse_pums_code v2 file pp2 (run evs'' w1) =
             (Inr (code_or_na fc v2), run evs'' w1)))"
proof (intro conjI allI impI)
  have "read_once w" using assms by (simp add: run_read_once read_once_start)
  then show "count_list (reads w) file \<le> 1"
    using distinct_count_le [of "reads w" "file"] by (simp add: read_once_def)
next
  fix fc assume "cache w file = Some fc"
  then show "cache (run evs' w) file = Some fc" by (rule run_cache)
next
  fix r1 w1 assume "parse_pums_code v1 file pp1 w = (Inr r1, w1)"
  then obtain fc where fc: "cache w1 file = Some fc" "r1 = code_or_na fc v1"
    using parse_result by blast
  from fc(1) have "cache (run evs'' w1) file = Some fc" by (rule run_cache)
  then have "parse_pums_code v2 file pp2 (run evs'' w1) =
      (Inr (code_or_na fc v2), run evs'' w1)"
    by (simp add: parse_cached)
  with fc show "\<exists>fc. cache w1 file = Some fc \<and> r1 = code_or_na fc v1 \<and>
      parse_pums_code v2 file pp2 (run evs'' w1) = (Inr (code_or_na fc v2), run evs'' w1)"
    by blast
qed

theorem parse_pums_code_cached_witness:
  "count_list (reads (run [Call (IntV 6) ''codes.txt'' None,
                           Call (IntV 7) ''codes.txt'' (Some rev)]
       (process_start [''codes.txt'' \<mapsto> ''6 .Teacher'']))) ''codes.txt'' \<le> 1 \<and>
   cache (run [FileChange ''codes.txt'' (Some ''6 .Nurse''), Call (IntV 6) ''codes.txt'' None]
       (run [Call (IntV 6) ''codes.txt'' None, Call (IntV 7) ''codes.txt'' (Some rev)]
       (process_start [''codes.txt'' \<mapsto> ''6 .Teacher'']))) ''codes.txt'' =
     Some [6 \<mapsto> ''Teacher''] \<and>
   fst (parse_pums_code (IntV 6) ''codes.txt'' (Some rev)
     (run [FileChange ''codes.txt'' (Some ''6 .Nurse'')]
        (snd (parse_pums_code (IntV 6) ''codes.txt'' None
           (run [] (process_start [''codes.txt'' \<mapsto> ''6 .Teacher''])))))) = Inr ''Teacher''"
proof -
  let ?w = "run [Call (IntV 6) ''codes.txt'' None, Call (IntV 7) ''codes.txt'' (Some rev)]
       (process_start [''codes.txt'' \<mapsto> ''6 .Teacher''])"
  let ?start = "run [] (process_start [''codes.txt'' \<mapsto> ''6 .Teacher''])"
  have c: "cache ?w ''codes.txt'' = Some [6 \<mapsto> ''Teacher'']"
    by (simp add: run_def parse_pums_code_def get_file_cache_def process_start_def
        file_lines_def line_re_match_def is_digit_def is_space_def LF_def CR_def
        int_of_digits_def digit_value_def Let_def)
  have first: "parse_pums_code (IntV 6) ''codes.txt'' None ?start =
      (Inr ''Teacher'', snd (parse_pums_code (IntV 6) ''codes.txt'' None ?start))"
    by (rule prod_eqI)
      (simp_all add: run_def parse_pums_code_def get_file_cache_def process_start_def
        file_lines_def line_re_match_def is_digit_def is_space_def LF_def CR_def
        int_of_digits_def digit_value_def file_cache_lookup_def code_or_na_def Let_def)
  from parse_pums_code_cached [OF refl,
      of "[Call (IntV 6) ''codes.txt'' None, Call (IntV 7) ''codes.txt'' (Some rev)]"
      "[''codes.txt'' \<mapsto> ''6 .Teacher'']" "''codes.txt''"
      "[FileChange ''codes.txt'' (Some ''6 .Nurse''), Call (IntV 6) ''codes.txt'' None]"] c
  have a: "count_list (reads ?w) ''codes.txt'' \<le> 1 \<and>
    cache (run [FileChange ''codes.txt'' (Some ''6 .Nurse''), Call (IntV 6) ''codes.txt'' None] ?w)
      ''codes.txt'' = Some [6 \<mapsto> ''Teacher'']"
    by blast
  from parse_pums_code_cached [OF refl, of "[]" "[''codes.txt'' \<mapsto> ''6 .Teacher'']" "''codes.txt''" _
      "IntV 6" None "IntV 6" "Some rev" "[FileChange ''codes.txt'' (Some ''6 .Nurse'')]"]
    first
  have b: "fst (parse_pums_code (IntV 6) ''codes.txt'' (Some rev)
     (run [FileChange ''codes.txt'' (Some ''6 .Nurse'')]
        (snd (parse_pums_code (IntV 6) ''codes.txt'' None ?start)))) = Inr ''Teacher''"
    by (metis fst_conv)
  from a b show ?thesis by blast
qed


section \<open>The registry\<close>

text \<open>
  C6. Loading the module of the registry does raise a configuration error: the mapper
  for the column PINCP is built with neither a value map nor a question, so its
  construction raises the \<open>ValueError\<close> of the last branch of the constructor, and the
  load ends there, whatever directory the package is in.
\<close>

theorem acs_columns_module_raises:
  "acs_columns_module dir = Inl (ValueError (neither_provided_message ''PINCP''))"
  by (simp add: acs_columns_module_def acs_columns_statements_def acs_age_def
      acs_class_of_worker_def acs_schooling_def acs_marital_status_def acs_occupation_def
      acs_place_of_birth_def acs_relationship_def acs_work_hours_def acs_sex_def acs_race_def
      acs_income_PINCP_def Question_def)

text \<open>
  C9. Rendering through the registry gives none of the four sentences: the load of the
  module stops at the mapper for PINCP, after \<open>acs_race\<close> was built and before the
  assignment for \<open>PINCP_binary\<close> runs, so asking the loaded registry for the RAC1P
  mapper's text of 6 or 1, or for the \<open>PINCP_binary\<close> mapper's text of 0 or 1, ends in
  the \<open>ValueError\<close> of the load, whatever directory the package is in.
\<close>

theorem registry_get_text_raises:
  "registry_get_text dir ''acs_race'' (IntV 6) w =
     (Inl (ValueError (neither_provided_message ''PINCP'')), w) \<and>
   registry_get_text dir ''acs_race'' (IntV 1) w =
     (Inl (ValueError (neither_provided_message ''PINCP'')), w) \<and>
   registry_get_text dir ''acs_income'' (IntV 0) w =
     (Inl (ValueError (neither_provided_message ''PINCP'')), w) \<and>
   registry_get_text dir ''acs_income'' (IntV 1) w =
     (Inl (ValueError (neither_provided_message ''PINCP'')), w)"
  by (simp add: registry_get_text_def acs_columns_module_stops)

section \<open>The command line\<close>

text \<open>
  C5. With the four required options and a feature subset, the configuration is built,
  and its order-bias correction is off when \<open>--dont-correct-order-bias\<close> is absent and on
  when the flag is given: the reverse of what the flag's help text and the claim say.
\<close>

theorem order_bias_flag_reversed:
  "map_sum id correct_order_bias
     (main_config all_ok (required_only\<lparr>opt_use_feature_subset := Some [''AGEP'']\<rparr>)) =
     Inr False \<and>
   map_sum id correct_order_bias
     (main_config all_ok (required_only\<lparr>opt_use_feature_subset := Some [''AGEP''],
        flag_dont_correct_order_bias := True\<rparr>)) = Inr True"
  by (simp add: main_config_def all_ok_def required_only_def parse_args_def
      parse_population_filter_def make_config_def py_tuple_def store_false_def)

text \<open>
  C7. With the four required options and no \<open>--use-feature-subset\<close>, every step outside
  the program succeeding, no configuration is built: \<open>tuple\<close> is applied to \<open>None\<close> and
  raises a \<open>TypeError\<close>.
\<close>

theorem omitted_feature_subset_raises:
  "main_config all_ok required_only = Inl (TypeError ''tuple()'')"
  by (simp add: main_config_def all_ok_def required_only_def parse_args_def
      parse_population_filter_def make_config_def py_tuple_def)

section \<open>The round trip\<close>




end
